theory Spec2Isabelle
  imports Main
begin

section \<open>JavaScript helpers used by the viewer code\<close>

text \<open>
  The errors a call can raise. \<open>Error\<close> carries the message of \<open>new Error(msg)\<close>;
  \<open>TypeError\<close> is what reading a property of \<open>undefined\<close> raises; \<open>NetworkError\<close> is the
  rejection of \<open>fetch\<close> on a network or CORS failure and \<open>AbortError\<close> its rejection
  after \<open>controller.abort()\<close>.
\<close>

datatype js_error = Error string | TypeError | NetworkError | AbortError

text \<open>\<open>a || b\<close> on an optional string: \<open>undefined\<close> and the empty string are falsy.\<close>

definition or_else :: "string option \<Rightarrow> string \<Rightarrow> string" where
  "or_else a b = (case a of None \<Rightarrow> b | Some s \<Rightarrow> if s = [] then b else s)"

text \<open>\<open>s.split(c)\<close> for a one-character separator: never an empty array.\<close>

fun split_on :: "char \<Rightarrow> string \<Rightarrow> string list" where
  "split_on c [] = [[]]"
| "split_on c (x # xs) =
     (if x = c then [] # split_on c xs
      else (case split_on c xs of
              [] \<Rightarrow> [[x]]
            | s # ss \<Rightarrow> (x # s) # ss))"

text \<open>\<open>a[i]\<close> on an array: \<open>undefined\<close> out of range.\<close>

fun index_opt :: "'a list \<Rightarrow> nat \<Rightarrow> 'a option" where
  "index_opt [] i = None"
| "index_opt (x # xs) 0 = Some x"
| "index_opt (x # xs) (Suc i) = index_opt xs i"

text \<open>\<open>s.startsWith(p)\<close>, \<open>s.includes(p)\<close> and \<open>s.endsWith(p)\<close>.\<close>

fun startsWith :: "string \<Rightarrow> string \<Rightarrow> bool" where
  "startsWith s [] = True"
| "startsWith [] (p # ps) = False"
| "startsWith (x # xs) (p # ps) = (x = p \<and> startsWith xs ps)"

fun includes_str :: "string \<Rightarrow> string \<Rightarrow> bool" where
  "includes_str [] p = (p = [])"
| "includes_str (x # xs) p = (startsWith (x # xs) p \<or> includes_str xs p)"

definition endsWith :: "string \<Rightarrow> string \<Rightarrow> bool" where
  "endsWith s p = startsWith (rev s) (rev p)"

text \<open>The truth value of an optional string: \<open>undefined\<close> and the empty string are falsy.\<close>

definition truthy :: "string option \<Rightarrow> bool" where
  "truthy v = (case v of None \<Rightarrow> False | Some s \<Rightarrow> s \<noteq> [])"

section \<open>Endpoint resolver (2-viewer/src/js/config.js)\<close>

datatype endpoint = caddy | github

text \<open>
  \<open>this.endpoints\<close>: the three URLs of the self-hosted server and the one base of the
  fallback, which is \<open>null\<close> until \<open>detectEnvironment\<close> sets it.
\<close>

record endpoints =
  caddy_pmtiles :: string
  caddy_mvt :: string
  caddy_health :: string
  github_pmtiles :: "string option"

record TileConfig =
  endpoints :: endpoints
  currentEndpoint :: "endpoint option"
  isLocalhost :: bool
  isGitHubPages :: bool
  repoName :: string
  basePath :: string

text \<open>What the constructor reads: \<open>import.meta.env\<close> and \<open>window.location\<close>.\<close>

record env =
  VITE_CADDY_HOST :: "string option"
  VITE_CADDY_PORT :: "string option"

record location =
  protocol :: string
  host :: string
  hostname :: string
  pathname :: string

definition detectEnvironment :: "location \<Rightarrow> TileConfig \<Rightarrow> TileConfig" where
  "detectEnvironment loc c =
     (let c1 = c\<lparr>isLocalhost := (hostname loc = ''localhost'' \<or> hostname loc = ''127.0.0.1'')\<rparr>;
          c2 = c1\<lparr>isGitHubPages := includes_str (hostname loc) ''github.io''\<rparr>
      in if isGitHubPages c2 then
           (let c3 = c2\<lparr>repoName := or_else (index_opt (split_on CHR ''/'' (pathname loc)) 1) []\<rparr>;
                c4 = c3\<lparr>basePath := (if repoName c3 \<noteq> [] then ''/'' @ repoName c3 else [])\<rparr>
            in c4\<lparr>endpoints := (endpoints c4)\<lparr>github_pmtiles := Some (basePath c4 @ ''/tiles'')\<rparr>\<rparr>)
         else if isLocalhost c2 then
           (let c3 = c2\<lparr>basePath := []\<rparr>
            in c3\<lparr>endpoints := (endpoints c3)\<lparr>github_pmtiles := Some ''./tiles''\<rparr>\<rparr>)
         else c2)"

definition new_TileConfig :: "env \<Rightarrow> location \<Rightarrow> TileConfig" where
  "new_TileConfig e loc =
     (let caddyHost = or_else (VITE_CADDY_HOST e) ''127.0.0.1'';
          caddyPort = or_else (VITE_CADDY_PORT e) ''3002''
      in detectEnvironment loc
           \<lparr>endpoints =
              \<lparr>caddy_pmtiles = ''http://'' @ caddyHost @ '':'' @ caddyPort @ ''/static'',
               caddy_mvt = ''http://'' @ caddyHost @ '':'' @ caddyPort @ ''/mvt'',
               caddy_health = ''http://'' @ caddyHost @ '':'' @ caddyPort @ ''/health'',
               github_pmtiles = None\<rparr>,
            currentEndpoint = None,
            isLocalhost = False,
            isGitHubPages = False,
            repoName = [],
            basePath = []\<rparr>)"

text \<open>
  What the network does with one GET of a URL: it answers after some milliseconds with a
  response whose \<open>ok\<close> flag is given, it fails after some milliseconds (connection
  refused, CORS rejection), or it stays silent for ever.
\<close>

datatype reply = Answers nat bool | Fails nat | Silent

text \<open>
  \<open>await fetch(url, {signal})\<close> with \<open>setTimeout(() => controller.abort(), timeout)\<close>
  armed before it: the promise settles with what the network does when that comes before
  the timer, and is rejected with an \<open>AbortError\<close> when the timer fires first.
\<close>

fun fetch_with_abort :: "nat \<Rightarrow> reply \<Rightarrow> js_error + bool" where
  "fetch_with_abort timeout (Answers t ok) = (if t < timeout then Inr ok else Inl AbortError)"
| "fetch_with_abort timeout (Fails t) = (if t < timeout then Inl NetworkError else Inl AbortError)"
| "fetch_with_abort timeout Silent = Inl AbortError"

text \<open>
  \<open>checkCaddyAvailability\<close>: the whole body is inside \<open>try\<close>, the \<open>catch\<close> returns
  \<open>false\<close>. The network is a function from the URL fetched to what happens.
\<close>

definition checkCaddyAvailability :: "(string \<Rightarrow> reply) \<Rightarrow> TileConfig \<Rightarrow> js_error + bool" where
  "checkCaddyAvailability net c =
     (case fetch_with_abort 2000 (net (caddy_health (endpoints c))) of
        Inr ok \<Rightarrow> Inr ok
      | Inl e \<Rightarrow> Inr False)"

text \<open>
  \<open>selectBestEndpoint\<close> returns the endpoint chosen and stores it in \<open>currentEndpoint\<close>.
  An error of the awaited probe would propagate.
\<close>

definition selectBestEndpoint ::
  "(string \<Rightarrow> reply) \<Rightarrow> TileConfig \<Rightarrow> js_error + (endpoint \<times> TileConfig)" where
  "selectBestEndpoint net c =
     (if isLocalhost c then
        (case checkCaddyAvailability net c of
           Inl e \<Rightarrow> Inl e
         | Inr caddyAvailable \<Rightarrow>
             if caddyAvailable then Inr (caddy, c\<lparr>currentEndpoint := Some caddy\<rparr>)
             else Inr (github, c\<lparr>currentEndpoint := Some github\<rparr>))
      else if isGitHubPages c then
        (case checkCaddyAvailability net c of
           Inl e \<Rightarrow> Inl e
         | Inr caddyAvailable \<Rightarrow>
             if caddyAvailable then Inr (caddy, c\<lparr>currentEndpoint := Some caddy\<rparr>)
             else Inr (github, c\<lparr>currentEndpoint := Some github\<rparr>))
      else Inr (github, c\<lparr>currentEndpoint := Some github\<rparr>))"

text \<open>A template literal prints \<open>null\<close> as the text \<open>null\<close>.\<close>

definition interpolate :: "string option \<Rightarrow> string" where
  "interpolate v = (case v of None \<Rightarrow> ''null'' | Some s \<Rightarrow> s)"

definition getPMTilesUrl :: "TileConfig \<Rightarrow> string \<Rightarrow> js_error + string" where
  "getPMTilesUrl c tileName =
     (case currentEndpoint c of
        None \<Rightarrow> Inl (Error ''Endpoint not selected. Call selectBestEndpoint() first.'')
      | Some e \<Rightarrow>
          (let endpoint = (if e = caddy then Some (caddy_pmtiles (endpoints c))
                           else github_pmtiles (endpoints c))
           in Inr (''pmtiles://'' @ interpolate endpoint @ ''/'' @ tileName)))"

definition getPMTilesBaseUrl :: "TileConfig \<Rightarrow> string \<Rightarrow> js_error + string" where
  "getPMTilesBaseUrl c tileName =
     (case currentEndpoint c of
        None \<Rightarrow> Inl (Error ''Endpoint not selected. Call selectBestEndpoint() first.'')
      | Some e \<Rightarrow>
          (let endpoint = (if e = caddy then Some (caddy_pmtiles (endpoints c))
                           else github_pmtiles (endpoints c))
           in Inr (interpolate endpoint @ ''/'' @ tileName)))"

section \<open>Numbers and version segments (app/src/MapView.tsx)\<close>

text \<open>
  The numbers the version check computes with are major versions: \<open>Num n\<close> is the
  integer \<open>n\<close>, \<open>NaN\<close> the not-a-number that unary plus gives for text that is no numeral.
\<close>

datatype jsnum = NaN | Num int

text \<open>The position of the first occurrence of an element, as \<open>indexOf\<close> on a string.\<close>

fun position :: "'a \<Rightarrow> 'a list \<Rightarrow> nat option" where
  "position x [] = None"
| "position x (y # ys) = (if x = y then Some 0 else map_option Suc (position x ys))"

definition digit_val :: "char \<Rightarrow> nat option" where
  "digit_val c = position c ''0123456789''"

fun digits_val :: "string \<Rightarrow> nat \<Rightarrow> nat option" where
  "digits_val [] acc = Some acc"
| "digits_val (c # cs) acc =
     (case digit_val c of None \<Rightarrow> None | Some d \<Rightarrow> digits_val cs (10 * acc + d))"

definition is_space :: "char \<Rightarrow> bool" where
  "is_space c = (c = CHR '' '' \<or> c = CHR 0x09 \<or> c = CHR 0x0A \<or> c = CHR 0x0B
                 \<or> c = CHR 0x0C \<or> c = CHR 0x0D)"

definition trim :: "string \<Rightarrow> string" where
  "trim s = rev (dropWhile is_space (rev (dropWhile is_space s)))"

definition unsigned_decimal :: "string \<Rightarrow> nat option" where
  "unsigned_decimal s = (if s = [] then None else digits_val s 0)"

text \<open>
  Unary plus on a string, for decimal integers: white space around the text is dropped,
  the empty text is \<open>0\<close>, an optionally signed run of decimal digits is that integer, any
  other text is \<open>NaN\<close>. JavaScript also reads hexadecimal, exponent and \<open>Infinity\<close>
  literals and rounds integers from \<open>2^53\<close> on to the nearest double; a major version is
  none of these, and they are outside this model: the properties of the version check
  are stated for decimal versions.
\<close>

definition toNumber :: "string \<Rightarrow> jsnum" where
  "toNumber s =
     (case trim s of
        [] \<Rightarrow> Num 0
      | c # cs \<Rightarrow>
          if c = CHR ''-'' then
            (case unsigned_decimal cs of None \<Rightarrow> NaN | Some n \<Rightarrow> Num (- int n))
          else if c = CHR ''+'' then
            (case unsigned_decimal cs of None \<Rightarrow> NaN | Some n \<Rightarrow> Num (int n))
          else
            (case unsigned_decimal (c # cs) of None \<Rightarrow> NaN | Some n \<Rightarrow> Num (int n)))"

text \<open>\<open>+v.split(".")[0]\<close>; unary plus on \<open>undefined\<close> is \<open>NaN\<close>.\<close>

definition major_of :: "string \<Rightarrow> jsnum" where
  "major_of v = (case index_opt (split_on CHR ''.'' v) 0 of None \<Rightarrow> NaN | Some seg \<Rightarrow> toNumber seg)"

text \<open>
  A decimal version: the text before the first \<open>.\<close> is a run of one to fifteen decimal
  digits. On these \<open>major_of\<close> is the number JavaScript computes, an integer below
  \<open>2^53\<close> that a double holds exactly and a template literal prints in full.
\<close>

definition decimal_major :: "string \<Rightarrow> bool" where
  "decimal_major v =
     (case index_opt (split_on CHR ''.'' v) 0 of
        None \<Rightarrow> False
      | Some seg \<Rightarrow> seg \<noteq> [] \<and> length seg \<le> 15 \<and> list_all (\<lambda>c. digit_val c \<noteq> None) seg)"

definition digit_char :: "nat \<Rightarrow> char" where
  "digit_char d = (case index_opt ''0123456789'' d of Some c \<Rightarrow> c | None \<Rightarrow> CHR ''?'')"

function show_nat :: "nat \<Rightarrow> string" where
  "show_nat n = (if n < 10 then [digit_char n] else show_nat (n div 10) @ [digit_char (n mod 10)])"
  by pat_completeness auto
termination
  by (relation "measure (\<lambda>n. n)") auto

declare show_nat.simps [simp del]

text \<open>A number inside a template literal.\<close>

fun show_num :: "jsnum \<Rightarrow> string" where
  "show_num NaN = ''NaN''"
| "show_num (Num i) = (if i < 0 then ''-'' @ show_nat (nat (- i)) else show_nat (nat i))"

text \<open>\<open>a === b\<close> on numbers: \<open>NaN\<close> equals nothing, itself included.\<close>

fun strict_eq :: "jsnum \<Rightarrow> jsnum \<Rightarrow> bool" where
  "strict_eq (Num a) (Num b) = (a = b)"
| "strict_eq _ _ = False"

fun indexOf_from :: "jsnum list \<Rightarrow> jsnum \<Rightarrow> int \<Rightarrow> int" where
  "indexOf_from [] x i = - 1"
| "indexOf_from (y # ys) x i = (if strict_eq y x then i else indexOf_from ys x (i + 1))"

definition indexOf :: "jsnum list \<Rightarrow> jsnum \<Rightarrow> int" where
  "indexOf xs x = indexOf_from xs x 0"

section \<open>Version compatibility check (app/src/MapView.tsx)\<close>

definition STYLE_MAJOR_VERSION :: int where
  "STYLE_MAJOR_VERSION = 5"

text \<open>
  \<open>VERSION_COMPATIBILITY\<close> is imported from \<open>./utils\<close>, a \<open>Record<number, number[]>\<close>; the
  check takes it as a parameter, a map from the tileset major versions it lists to the
  style major versions each accepts. \<open>table[n]\<close> is \<open>undefined\<close> for a key it does not
  list, and for \<open>NaN\<close>.
\<close>

type_synonym compat_table = "int \<rightharpoonup> jsnum list"

fun table_get :: "compat_table \<Rightarrow> jsnum \<Rightarrow> jsnum list option" where
  "table_get t NaN = None"
| "table_get t (Num n) = t n"

text \<open>The metadata document of an archive, or a TileJSON document.\<close>

datatype jsvalue = Str string | Number jsnum | Null | Object "(string \<times> jsvalue) list"

definition styleMajorVersion_of :: "string option \<Rightarrow> jsnum" where
  "styleMajorVersion_of npmVersion =
     (case npmVersion of
        None \<Rightarrow> Num STYLE_MAJOR_VERSION
      | Some v \<Rightarrow> if v = [] then Num STYLE_MAJOR_VERSION else major_of v)"

text \<open>The style versions on which \<open>styleMajorVersion_of\<close> is exact: none, or a decimal one.\<close>

definition decimal_style :: "string option \<Rightarrow> bool" where
  "decimal_style npmVersion = (case npmVersion of None \<Rightarrow> True | Some v \<Rightarrow> v = [] \<or> decimal_major v)"

text \<open>
  The callback of the version effect, run on what \<open>archiveInfo()\<close> resolved to: \<open>None\<close> for
  \<open>undefined\<close>, else the \<open>metadata\<close> of the info. It returns the text of the \<open>mismatch\<close>
  signal afterwards (the old one where \<open>setMismatch\<close> is not called), or the error raised.
  \<open>undefined.indexOf\<close> and \<open>.split\<close> on a value that is no string raise a \<open>TypeError\<close>.
\<close>

definition version_check ::
  "compat_table \<Rightarrow> string option \<Rightarrow> jsvalue option \<Rightarrow> string \<Rightarrow> js_error + string" where
  "version_check VERSION_COMPATIBILITY npmVersion i mismatch =
     (let styleMajorVersion = styleMajorVersion_of npmVersion
      in case i of
           Some (Object metadata) \<Rightarrow>
             (case map_of metadata ''version'' of
                None \<Rightarrow> Inr mismatch
              | Some (Str version) \<Rightarrow>
                  (let tilesetVersion = major_of version
                   in case table_get VERSION_COMPATIBILITY tilesetVersion of
                        None \<Rightarrow> Inl TypeError
                      | Some compatible \<Rightarrow>
                          if indexOf compatible styleMajorVersion < 0 then
                            Inr (''style v'' @ show_num styleMajorVersion
                                 @ '' may not be compatible with tileset v''
                                 @ show_num tilesetVersion @ ''. '')
                          else Inr [])
              | Some _ \<Rightarrow> Inl TypeError)
         | _ \<Rightarrow> Inr mismatch)"

section \<open>Archive registry (app/src/MapView.tsx, archiveInfo)\<close>

text \<open>
  A \<open>PMTiles\<close> object: \<open>ident\<close> is the identity of the instance (two objects are the same
  instance when their idents agree), \<open>key\<close> is \<open>source.getKey()\<close>. In the pmtiles
  library \<open>new PMTiles(url)\<close> has the URL as its key, a dropped file its file name, and
  \<open>Protocol.add(a)\<close> stores \<open>a\<close> in the \<open>tiles\<close> map under its key.
\<close>

record pmtiles =
  ident :: nat
  key :: string

text \<open>
  The state \<open>archiveInfo\<close> works on: the \<open>tiles\<close> map of the protocol when
  \<open>protocolRef()\<close> is set, and the number of \<open>PMTiles\<close> objects constructed so far,
  which is the ident of the next one.
\<close>

record registry =
  protocolRef :: "(string \<rightharpoonup> pmtiles) option"
  constructed :: nat

text \<open>
  Where \<open>archiveInfo\<close> takes its metadata and bounds from: the TileJSON document fetched
  from the URL, an archive, or nothing (it returns \<open>undefined\<close>).
\<close>

datatype archive_choice = TileJson string | Archive pmtiles | NoArchive

text \<open>
  The part of \<open>archiveInfo\<close> after \<open>const p = protocolRef()\<close>: the dropped archive is
  added to the protocol; otherwise the archive registered under \<open>props.tiles\<close> is taken,
  and only when there is none a new one is constructed and added.
\<close>

definition registry_archive ::
  "pmtiles option \<Rightarrow> string option \<Rightarrow> registry \<Rightarrow> archive_choice \<times> registry" where
  "registry_archive droppedArchive tiles r =
     (case protocolRef r of
        None \<Rightarrow> (NoArchive, r)
      | Some p \<Rightarrow>
          (case droppedArchive of
             Some archive \<Rightarrow>
               (Archive archive, r\<lparr>protocolRef := Some (p(key archive \<mapsto> archive))\<rparr>)
           | None \<Rightarrow>
               (case tiles of
                  None \<Rightarrow> (NoArchive, r)
                | Some t \<Rightarrow>
                    if t = [] then (NoArchive, r)
                    else
                      (case p t of
                         Some archive \<Rightarrow> (Archive archive, r)
                       | None \<Rightarrow>
                           (let archive = \<lparr>ident = constructed r, key = t\<rparr>
                            in (Archive archive,
                                r\<lparr>protocolRef := Some (p(key archive \<mapsto> archive)),
                                  constructed := Suc (constructed r)\<rparr>))))))"

text \<open>
  \<open>archiveInfo\<close> up to the choice of the archive: with no dropped archive and a
  \<open>props.tiles\<close> that ends in \<open>.json\<close> it fetches the TileJSON and returns before it
  looks at the protocol.
\<close>

definition archiveInfo_archive ::
  "pmtiles option \<Rightarrow> string option \<Rightarrow> registry \<Rightarrow> archive_choice \<times> registry" where
  "archiveInfo_archive droppedArchive tiles r =
     (case tiles of
        None \<Rightarrow> registry_archive droppedArchive tiles r
      | Some t \<Rightarrow>
          if droppedArchive = None \<and> endsWith t ''.json'' then (TileJson t, r)
          else registry_archive droppedArchive tiles r)"

section \<open>Style composition (app/src/MapView.tsx, getMaplibreStyle)\<close>

definition ATTRIBUTION :: string where
  "ATTRIBUTION =
     ''<a href='' @ [CHR 0x22] @ ''https://github.com/protomaps/basemaps'' @ [CHR 0x22]
     @ ''>Protomaps</a> '' @ [CHR 0xA9] @ '' <a href='' @ [CHR 0x22]
     @ ''https://openstreetmap.org'' @ [CHR 0x22] @ ''>OpenStreetMap</a>''"

record vector_source =
  source_type :: string
  attribution :: string
  url :: string

text \<open>
  A style document; \<open>sources\<close> lists the entries of the sources object, \<open>sprite\<close> and
  \<open>glyphs\<close> are \<open>None\<close> while the properties are not set.
\<close>

record 'l style =
  version :: nat
  sources :: "(string \<times> vector_source) list"
  layers :: "'l list"
  sprite :: "string option"
  glyphs :: "string option"

text \<open>A template literal prints \<open>undefined\<close> as the text \<open>undefined\<close>.\<close>

definition interpolate_undefined :: "string option \<Rightarrow> string" where
  "interpolate_undefined v = (case v of None \<Rightarrow> ''undefined'' | Some s \<Rightarrow> s)"

text \<open>
  \<open>getMaplibreStyle\<close>. \<open>isValidPMTiles\<close> (from \<open>./utils\<close>) and \<open>layers\<close> (from the styles
  package, here \<open>layers_fn\<close>) are imported and taken as parameters, as is
  \<open>window.location\<close>; the type of a flavor and of a layer are left open.
\<close>

definition getMaplibreStyle ::
  "(string \<Rightarrow> bool) \<Rightarrow> (string \<Rightarrow> 'f \<Rightarrow> string \<Rightarrow> 'l list) \<Rightarrow> location \<Rightarrow>
   string \<Rightarrow> bool \<Rightarrow> string option \<Rightarrow> 'f option \<Rightarrow> string option \<Rightarrow> 'l list option \<Rightarrow>
   pmtiles option \<Rightarrow> 'l style" where
  "getMaplibreStyle isValidPMTiles layers_fn loc
     lang localSprites flavorName flavor tiles npmLayers droppedArchive =
     (let style = \<lparr>version = 8, sources = [], layers = [], sprite = None, glyphs = None\<rparr>
      in case tiles of
           None \<Rightarrow> style
         | Some t \<Rightarrow>
             if t = [] then style
             else
               (case flavor of
                  None \<Rightarrow> style
                | Some fl \<Rightarrow>
                    (let tilesWithProtocol =
                           (case droppedArchive of
                              Some a \<Rightarrow> ''pmtiles://'' @ key a
                            | None \<Rightarrow> if isValidPMTiles t then ''pmtiles://'' @ t else t);
                         style1 = style\<lparr>layers := []\<rparr>;
                         style2 =
                           (if localSprites then
                              style1\<lparr>sprite := Some (protocol loc @ ''//'' @ host loc @ ''/''
                                                       @ interpolate_undefined flavorName)\<rparr>
                            else
                              style1\<lparr>sprite :=
                                Some (''https://protomaps.github.io/basemaps-assets/sprites/v4/''
                                      @ interpolate_undefined flavorName)\<rparr>);
                         style3 = style2\<lparr>glyphs :=
                           Some ''https://protomaps.github.io/basemaps-assets/fonts/{fontstack}/{range}.pbf''\<rparr>;
                         style4 = style3\<lparr>sources :=
                           [(''protomaps'',
                             \<lparr>source_type = ''vector'', attribution = ATTRIBUTION,
                              url = tilesWithProtocol\<rparr>)]\<rparr>
                     in case npmLayers of
                          None \<Rightarrow> style4\<lparr>layers := layers style4 @ layers_fn ''protomaps'' fl lang\<rparr>
                        | Some ls \<Rightarrow>
                            if length ls > 0 then style4\<lparr>layers := layers style4 @ ls\<rparr>
                            else style4\<lparr>layers := layers style4 @ layers_fn ''protomaps'' fl lang\<rparr>)))"

section \<open>View state in the URL fragment (app/src/MapView.tsx, MapView)\<close>

definition DEFAULT_TILES :: string where
  "DEFAULT_TILES = ''https://pub-927f42809d2e4b89b96d1e7efb091d1f.r2.dev/global.pmtiles''"

text \<open>
  The record the hash effect builds from the signals, as the list of its properties in
  the order written; \<open>None\<close> is \<open>undefined\<close>.
\<close>

definition hash_record ::
  "string \<Rightarrow> string \<Rightarrow> string \<Rightarrow> bool \<Rightarrow> bool \<Rightarrow> string option \<Rightarrow> pmtiles option \<Rightarrow>
   (string \<times> string option) list" where
  "hash_record flavorName lang tiles localSprites showBoxes publishedStyleVersion droppedArchive =
     [(''flavorName'', Some flavorName),
      (''lang'', Some lang),
      (''tiles'',
         (case droppedArchive of
            Some a \<Rightarrow> None
          | None \<Rightarrow> if tiles = DEFAULT_TILES then None else Some tiles)),
      (''local_sprites'', if localSprites then Some ''true'' else None),
      (''show_boxes'', if showBoxes then Some ''true'' else None),
      (''npm_version'', if truthy publishedStyleVersion then publishedStyleVersion else None)]"

text \<open>
  The defaults \<open>MapView\<close> declares for the fields that have a text value: the flavor
  \<open>light\<close>, the language \<open>en\<close> and the tile source \<open>DEFAULT_TILES\<close>. The two flags
  and the published style version default to the absent field.
\<close>

definition declared_default :: "string \<Rightarrow> string option" where
  "declared_default k =
     (if k = ''flavorName'' then Some ''light''
      else if k = ''lang'' then Some ''en''
      else if k = ''tiles'' then Some DEFAULT_TILES
      else None)"

text \<open>
  Modelled from the spec: \<open>createHash\<close> is imported from \<open>./utils\<close>, which is not among the
  sources. The spec has it merge the fields of the record into the key/value pairs that
  the fragment already holds and keep the keys of other concerns; a field whose value
  equals the declared default is omitted entirely, so that no stale default-valued key
  stays; an absent field means that the key is not written; any other field that is
  present is written, the empty string included. The fragment is held as its list of
  key/value pairs; the text form \<open>key1=value1&key2=value2\<close> and the URL-encoding of
  values are not modelled.
\<close>

fun set_param :: "string \<Rightarrow> string \<Rightarrow> (string \<times> string) list \<Rightarrow> (string \<times> string) list" where
  "set_param k v [] = [(k, v)]"
| "set_param k v (p # ps) =
     (if fst p = k then (k, v) # filter (\<lambda>q. fst q \<noteq> k) ps else p # set_param k v ps)"

definition delete_param :: "string \<Rightarrow> (string \<times> string) list \<Rightarrow> (string \<times> string) list" where
  "delete_param k ps = filter (\<lambda>q. fst q \<noteq> k) ps"

fun createHash ::
  "(string \<times> string) list \<Rightarrow> (string \<times> string option) list \<Rightarrow> (string \<times> string) list" where
  "createHash fragment [] = fragment"
| "createHash fragment ((k, None) # record) = createHash (delete_param k fragment) record"
| "createHash fragment ((k, Some v) # record) =
     (if declared_default k = Some v then createHash (delete_param k fragment) record
      else createHash (set_param k v fragment) record)"

section \<open>Example inputs\<close>

definition example_env :: env where
  "example_env = \<lparr>VITE_CADDY_HOST = None, VITE_CADDY_PORT = None\<rparr>"

definition on_localhost :: location where
  "on_localhost =
     \<lparr>protocol = ''http:'', host = ''localhost:5173'', hostname = ''localhost'',
      pathname = ''/''\<rparr>"

definition hosted_elsewhere :: location where
  "hosted_elsewhere =
     \<lparr>protocol = ''https:'', host = ''maps.example.org'', hostname = ''maps.example.org'',
      pathname = ''/viewer/''\<rparr>"

text \<open>A network whose every URL answers with a 2xx response after 10 ms, and a dead one.\<close>

fun healthy :: "string \<Rightarrow> reply" where
  "healthy u = Answers 10 True"

fun dead :: "string \<Rightarrow> reply" where
  "dead u = Silent"

text \<open>The compatibility table of the spec's examples.\<close>

definition example_table :: compat_table where
  "example_table = [2 \<mapsto> [Num 2, Num 3], 3 \<mapsto> [Num 3]]"

definition example_url :: string where
  "example_url = ''https://example.com/a.pmtiles''"

text \<open>A registry with nothing registered, and one that holds an archive for the URL.\<close>

definition empty_registry :: registry where
  "empty_registry = \<lparr>protocolRef = Some Map.empty, constructed = 0\<rparr>"

definition registry_with_archive :: registry where
  "registry_with_archive =
     \<lparr>protocolRef = Some [example_url \<mapsto> \<lparr>ident = 0, key = example_url\<rparr>],
      constructed = 1\<rparr>"

text \<open>A fragment with the map position and keys left from an earlier state.\<close>

definition stale_fragment :: "(string \<times> string) list" where
  "stale_fragment =
     [(''map'', ''3/10/20''), (''flavorName'', ''dark''), (''tiles'', example_url),
      (''show_boxes'', ''true'')]"

text \<open>An archive made from a dropped file.\<close>

definition dropped_file :: pmtiles where
  "dropped_file = \<lparr>ident = 7, key = ''local.pmtiles''\<rparr>"

text \<open>
  Stand-ins for the two imported functions: a recogniser of archive URLs by their suffix,
  and a theme of three layers, named by strings.
\<close>

fun example_isValidPMTiles :: "string \<Rightarrow> bool" where
  "example_isValidPMTiles u = endsWith u ''.pmtiles''"

fun example_layers :: "string \<Rightarrow> unit \<Rightarrow> string \<Rightarrow> string list" where
  "example_layers src fl lang = [''land'', ''water'', ''roads'']"

section \<open>Endpoint resolver: properties\<close>

lemma checkCaddyAvailability_value:
  "checkCaddyAvailability net c =
     Inr (case net (caddy_health (endpoints c)) of
            Answers t ok \<Rightarrow> t < 2000 \<and> ok
          | Fails t \<Rightarrow> False
          | Silent \<Rightarrow> False)"
  by (cases "net (caddy_health (endpoints c))") (simp_all add: checkCaddyAvailability_def)

lemma checkCaddyAvailability_total: "\<exists>b. checkCaddyAvailability net c = Inr b"
  by (simp add: checkCaddyAvailability_value)

lemma selectBestEndpoint_total:
  "\<exists>ep. selectBestEndpoint net c = Inr (ep, c\<lparr>currentEndpoint := Some ep\<rparr>)"
  using checkCaddyAvailability_total[of net c]
  by (auto simp: selectBestEndpoint_def split: sum.splits)

lemma new_TileConfig_unselected: "currentEndpoint (new_TileConfig e loc) = None"
  by (simp add: new_TileConfig_def detectEnvironment_def Let_def)

text \<open>
  C5. For every configuration, hence every health URL, and whatever the network does,
  the liveness probe returns a boolean and raises nothing. The boolean is \<open>false\<close> when
  the request fails (network or CORS error), when the endpoint never answers, and when
  the answer does not come before the 2000 ms timer aborts the request; it is the \<open>ok\<close>
  flag of the response when the answer comes in time.
\<close>

theorem checkCaddyAvailability_never_throws:
  "(\<exists>b. checkCaddyAvailability net c = Inr b) \<and>
   checkCaddyAvailability net c =
     Inr (case net (caddy_health (endpoints c)) of
            Answers t ok \<Rightarrow> t < 2000 \<and> ok
          | Fails t \<Rightarrow> False
          | Silent \<Rightarrow> False)"
  using checkCaddyAvailability_value checkCaddyAvailability_total by blast

text \<open>
  C6, as the code has it. Endpoint selection probes the self-hosted endpoint only when
  the page is on localhost or on a github.io host: there it returns \<open>caddy\<close> when the
  probe succeeds and \<open>github\<close> otherwise. On every other host it returns \<open>github\<close>
  whatever the probe would say. The choice is stored in \<open>currentEndpoint\<close>.
\<close>

theorem selectBestEndpoint_choice:
  "selectBestEndpoint net c =
     (let ep = (if (isLocalhost c \<or> isGitHubPages c) \<and> checkCaddyAvailability net c = Inr True
                then caddy else github)
      in Inr (ep, c\<lparr>currentEndpoint := Some ep\<rparr>))"
  using checkCaddyAvailability_total[of net c]
  by (auto simp: selectBestEndpoint_def Let_def split: sum.splits)

theorem selectBestEndpoint_choice_witness:
  "selectBestEndpoint healthy (new_TileConfig example_env on_localhost) =
     Inr (caddy, (new_TileConfig example_env on_localhost)\<lparr>currentEndpoint := Some caddy\<rparr>)"
  using selectBestEndpoint_choice[of healthy "new_TileConfig example_env on_localhost"]
  by (simp add: checkCaddyAvailability_def new_TileConfig_def
      detectEnvironment_def example_env_def on_localhost_def or_else_def Let_def)

text \<open>
  C6 as stated fails: a page hosted on maps.example.org, with a self-hosted endpoint
  whose probe succeeds, is given \<open>github\<close>.
\<close>

theorem selectBestEndpoint_other_host_counterexample:
  "checkCaddyAvailability healthy (new_TileConfig example_env hosted_elsewhere) = Inr True \<and>
   map_sum id fst (selectBestEndpoint healthy (new_TileConfig example_env hosted_elsewhere))
     = Inr github"
  by (simp add: checkCaddyAvailability_def selectBestEndpoint_def new_TileConfig_def
      detectEnvironment_def example_env_def hosted_elsewhere_def or_else_def Let_def)

text \<open>
  C10. A configuration fresh from the constructor has no endpoint selected. While none is
  selected, \<open>getPMTilesUrl\<close> and \<open>getPMTilesBaseUrl\<close> raise an \<open>Error\<close>. Selection always
  completes and selects an endpoint, and after it both functions return a URL, the
  first the second prefixed with \<open>pmtiles://\<close>.
\<close>

theorem getPMTilesUrl_requires_selection:
  "currentEndpoint (new_TileConfig e loc) = None \<and>
   (currentEndpoint c = None \<longrightarrow>
      getPMTilesUrl c tileName
        = Inl (Error ''Endpoint not selected. Call selectBestEndpoint() first.'') \<and>
      getPMTilesBaseUrl c tileName
        = Inl (Error ''Endpoint not selected. Call selectBestEndpoint() first.'')) \<and>
   (\<exists>ep c' u. selectBestEndpoint net c = Inr (ep, c') \<and> currentEndpoint c' = Some ep \<and>
        getPMTilesBaseUrl c' tileName = Inr u \<and>
        getPMTilesUrl c' tileName = Inr (''pmtiles://'' @ u))"
proof (intro conjI impI)
  show "currentEndpoint (new_TileConfig e loc) = None"
    by (rule new_TileConfig_unselected)
next
  assume "currentEndpoint c = None"
  then show "getPMTilesUrl c tileName
      = Inl (Error ''Endpoint not selected. Call selectBestEndpoint() first.'')"
    by (simp add: getPMTilesUrl_def)
next
  assume "currentEndpoint c = None"
  then show "getPMTilesBaseUrl c tileName
      = Inl (Error ''Endpoint not selected. Call selectBestEndpoint() first.'')"
    by (simp add: getPMTilesBaseUrl_def)
next
  obtain ep where s: "selectBestEndpoint net c = Inr (ep, c\<lparr>currentEndpoint := Some ep\<rparr>)"
    using selectBestEndpoint_total by blast
  show "\<exists>ep c' u. selectBestEndpoint net c = Inr (ep, c') \<and> currentEndpoint c' = Some ep \<and>
        getPMTilesBaseUrl c' tileName = Inr u \<and>
        getPMTilesUrl c' tileName = Inr (''pmtiles://'' @ u)"
    using s by (simp add: getPMTilesUrl_def getPMTilesBaseUrl_def Let_def)
qed

theorem getPMTilesUrl_requires_selection_witness:
  "getPMTilesUrl (new_TileConfig example_env on_localhost) ''buildings.pmtiles''
     = Inl (Error ''Endpoint not selected. Call selectBestEndpoint() first.'') \<and>
   getPMTilesBaseUrl (new_TileConfig example_env on_localhost) ''buildings.pmtiles''
     = Inl (Error ''Endpoint not selected. Call selectBestEndpoint() first.'')"
  using getPMTilesUrl_requires_selection
    [of example_env on_localhost "new_TileConfig example_env on_localhost"
        "''buildings.pmtiles''" dead]
  by blast

section \<open>Version compatibility check: properties\<close>

lemma indexOf_from_negative:
  "0 \<le> i \<Longrightarrow> indexOf_from xs x i < 0 \<longleftrightarrow> \<not> (\<exists>y \<in> set xs. strict_eq y x)"
  by (induction xs arbitrary: i) auto

lemma strict_eq_same: "strict_eq y x \<Longrightarrow> y = x"
  by (cases y; cases x) auto

lemma indexOf_absent: "x \<notin> set xs \<Longrightarrow> indexOf xs x < 0"
  using indexOf_from_negative[of 0 xs x] strict_eq_same by (auto simp: indexOf_def)

text \<open>
  C1. When the metadata carries a decimal version whose major version is not a key of the
  table, the lookup gives \<open>undefined\<close> and \<open>undefined.indexOf\<close> raises a \<open>TypeError\<close>,
  for every style version. \<open>setMismatch\<close> is not reached, so a message shown for an
  earlier tileset stays. The claim asks for no message and no error here.
\<close>

theorem version_check_unknown_tileset_raises:
  assumes "map_of metadata ''version'' = Some (Str v)"
    and "decimal_major v"
    and "table_get tbl (major_of v) = None"
  shows "version_check tbl npmVersion (Some (Object metadata)) mismatch = Inl TypeError"
  using assms by (simp add: version_check_def Let_def)

text \<open>
  The spec's example \<open>check(2, "9.0.0")\<close> on the table \<open>{2: [2,3], 3: [3]}\<close>, with a
  message on display.
\<close>

theorem version_check_unknown_tileset_raises_witness:
  "version_check example_table (Some ''2.0.0'')
     (Some (Object [(''version'', Str ''9.0.0'')])) ''stale'' = Inl TypeError"
proof -
  have 1: "map_of [(''version'', Str ''9.0.0'')] ''version'' = Some (Str ''9.0.0'')" by simp
  have d: "decimal_major ''9.0.0''" by code_simp
  have m: "major_of ''9.0.0'' = Num 9" by code_simp
  have 2: "table_get example_table (major_of ''9.0.0'') = None"
    by (simp add: m example_table_def)
  show ?thesis
    using version_check_unknown_tileset_raises[OF 1 d 2] by simp
qed

text \<open>
  C8. When the metadata carries a decimal version whose major version is a key of the
  table, and the list under that key does not contain the style's major version, the
  check sets the mismatch message, which names the style major version and the tileset
  major version.
\<close>

theorem version_check_reports_mismatch:
  assumes "map_of metadata ''version'' = Some (Str v)"
    and "decimal_major v"
    and "decimal_style npmVersion"
    and "table_get tbl (major_of v) = Some compatible"
    and "styleMajorVersion_of npmVersion \<notin> set compatible"
  shows "version_check tbl npmVersion (Some (Object metadata)) mismatch =
           Inr (''style v'' @ show_num (styleMajorVersion_of npmVersion)
                @ '' may not be compatible with tileset v'' @ show_num (major_of v) @ ''. '')"
  using assms indexOf_absent[OF assms(5)]
  by (simp add: version_check_def Let_def)

theorem version_check_reports_mismatch_witness:
  "version_check example_table (Some ''2.1.0'')
     (Some (Object [(''version'', Str ''3.0.0'')])) []
     = Inr ''style v2 may not be compatible with tileset v3. ''"
proof -
  have 1: "map_of [(''version'', Str ''3.0.0'')] ''version'' = Some (Str ''3.0.0'')" by simp
  have d: "decimal_major ''3.0.0''" by code_simp
  have e: "decimal_style (Some ''2.1.0'')" by code_simp
  have m: "major_of ''3.0.0'' = Num 3" by code_simp
  have s: "styleMajorVersion_of (Some ''2.1.0'') = Num 2" by code_simp
  have 2: "table_get example_table (major_of ''3.0.0'') = Some [Num 3]"
    by (simp add: m example_table_def)
  have 3: "styleMajorVersion_of (Some ''2.1.0'') \<notin> set [Num 3]" by (simp add: s)
  have n2: "show_nat 2 = ''2''" by code_simp
  have n3: "show_nat 3 = ''3''" by code_simp
  show ?thesis
    using version_check_reports_mismatch[OF 1 d e 2 3, of "[]"] by (simp add: m s n2 n3)
qed

section \<open>Archive registry: properties\<close>

text \<open>
  C3. Asking for the archive of a key \<open>K\<close> (no dropped archive, \<open>K\<close> not empty and no
  TileJSON URL) when the protocol already holds an archive for \<open>K\<close> returns that archive
  and leaves the registry as it is: nothing is constructed. From any registry with a
  protocol, the first request yields an archive, registered under \<open>K\<close>, and the second
  request yields the same instance and changes nothing.
\<close>

theorem archiveInfo_archive_dedup:
  "(protocolRef r = Some p \<and> p K = Some h \<and> K \<noteq> [] \<and> \<not> endsWith K ''.json'' \<longrightarrow>
      archiveInfo_archive None (Some K) r = (Archive h, r)) \<and>
   (protocolRef r \<noteq> None \<and> K \<noteq> [] \<and> \<not> endsWith K ''.json'' \<longrightarrow>
      (\<exists>h r'. archiveInfo_archive None (Some K) r = (Archive h, r') \<and>
               archiveInfo_archive None (Some K) r' = (Archive h, r') \<and>
               (\<forall>p'. protocolRef r' = Some p' \<longrightarrow> p' K = Some h)))"
  by (auto simp: archiveInfo_archive_def registry_archive_def Let_def split: option.splits)

theorem archiveInfo_archive_dedup_witness:
  "archiveInfo_archive None (Some example_url) registry_with_archive
     = (Archive \<lparr>ident = 0, key = example_url\<rparr>, registry_with_archive) \<and>
   (\<exists>h r'. archiveInfo_archive None (Some example_url) empty_registry = (Archive h, r') \<and>
            archiveInfo_archive None (Some example_url) r' = (Archive h, r'))"
proof -
  have e: "\<not> endsWith example_url ''.json''" "example_url \<noteq> []"
    by (simp_all add: example_url_def endsWith_def)
  have a: "protocolRef registry_with_archive
             = Some [example_url \<mapsto> \<lparr>ident = 0, key = example_url\<rparr>]"
    by (simp add: registry_with_archive_def)
  have b: "protocolRef empty_registry \<noteq> None"
    by (simp add: empty_registry_def)
  show ?thesis
    using archiveInfo_archive_dedup
            [of registry_with_archive "[example_url \<mapsto> \<lparr>ident = 0, key = example_url\<rparr>]"
                example_url "\<lparr>ident = 0, key = example_url\<rparr>"]
          archiveInfo_archive_dedup[of empty_registry Map.empty example_url dropped_file]
          e a b
    by auto
qed

section \<open>Style composition: properties\<close>

text \<open>
  C4. Whatever the language, the sprite mode, the flavor name, the override layers and
  the dropped archive: when \<open>tiles\<close> is undefined or empty, or the flavor is undefined,
  \<open>getMaplibreStyle\<close> returns the document with no source and no layer.
\<close>

theorem getMaplibreStyle_unresolved_is_empty:
  "\<not> truthy tiles \<or> flavor = None \<Longrightarrow>
   getMaplibreStyle isValidPMTiles layers_fn loc lang localSprites flavorName flavor tiles
     npmLayers droppedArchive
     = \<lparr>version = 8, sources = [], layers = [], sprite = None, glyphs = None\<rparr>"
  by (auto simp: getMaplibreStyle_def truthy_def Let_def split: option.splits)

theorem getMaplibreStyle_unresolved_is_empty_witness:
  "getMaplibreStyle example_isValidPMTiles example_layers on_localhost ''en'' False
     (Some ''light'') (Some ()) None None None
     = \<lparr>version = 8, sources = [], layers = [], sprite = None, glyphs = None\<rparr> \<and>
   getMaplibreStyle example_isValidPMTiles example_layers on_localhost ''en'' True
     None None (Some example_url) (Some [''custom'']) (Some dropped_file)
     = \<lparr>version = 8, sources = [], layers = [], sprite = None, glyphs = None\<rparr>"
  using getMaplibreStyle_unresolved_is_empty
          [of None "Some ()" example_isValidPMTiles example_layers on_localhost "''en''" False
              "Some ''light''" None None]
        getMaplibreStyle_unresolved_is_empty
          [of "Some example_url" None example_isValidPMTiles example_layers on_localhost "''en''"
              True None "Some [''custom'']" "Some dropped_file"]
  by (simp add: truthy_def)

text \<open>
  C7. With a tile source and a flavor, the style has exactly one source, the vector
  source \<open>protomaps\<close>. Its URL is \<open>pmtiles://\<close> followed by the key of the dropped
  archive when there is one; otherwise \<open>pmtiles://\<close> followed by \<open>tiles\<close> when
  \<open>isValidPMTiles\<close> accepts it; otherwise \<open>tiles\<close> as it is.
\<close>

theorem getMaplibreStyle_source_precedence:
  "t \<noteq> [] \<Longrightarrow>
   sources (getMaplibreStyle isValidPMTiles layers_fn loc lang localSprites flavorName
              (Some fl) (Some t) npmLayers droppedArchive)
     = [(''protomaps'',
         \<lparr>source_type = ''vector'', attribution = ATTRIBUTION,
          url = (case droppedArchive of
                   Some a \<Rightarrow> ''pmtiles://'' @ key a
                 | None \<Rightarrow> if isValidPMTiles t then ''pmtiles://'' @ t else t)\<rparr>)]"
  by (simp add: getMaplibreStyle_def Let_def split: option.splits)

theorem getMaplibreStyle_source_precedence_witness:
  "sources (getMaplibreStyle example_isValidPMTiles example_layers on_localhost ''en'' False
              (Some ''light'') (Some ()) (Some example_url) None (Some dropped_file))
     = [(''protomaps'', \<lparr>source_type = ''vector'', attribution = ATTRIBUTION,
                          url = ''pmtiles://local.pmtiles''\<rparr>)] \<and>
   sources (getMaplibreStyle example_isValidPMTiles example_layers on_localhost ''en'' False
              (Some ''light'') (Some ()) (Some example_url) None None)
     = [(''protomaps'', \<lparr>source_type = ''vector'', attribution = ATTRIBUTION,
                          url = ''pmtiles://https://example.com/a.pmtiles''\<rparr>)] \<and>
   sources (getMaplibreStyle example_isValidPMTiles example_layers on_localhost ''en'' False
              (Some ''light'') (Some ()) (Some ''https://example.com/{z}/{x}/{y}.mvt'') None None)
     = [(''protomaps'', \<lparr>source_type = ''vector'', attribution = ATTRIBUTION,
                          url = ''https://example.com/{z}/{x}/{y}.mvt''\<rparr>)]"
proof -
  have v: "example_isValidPMTiles example_url"
    "\<not> example_isValidPMTiles ''https://example.com/{z}/{x}/{y}.mvt''"
    by (simp_all add: example_url_def endsWith_def)
  have n: "example_url \<noteq> []" "''https://example.com/{z}/{x}/{y}.mvt'' \<noteq> []"
    by (simp_all add: example_url_def)
  have u: "''pmtiles://'' @ example_url = ''pmtiles://https://example.com/a.pmtiles''"
    by (simp add: example_url_def)
  show ?thesis
    using getMaplibreStyle_source_precedence
            [OF n(1), of example_isValidPMTiles example_layers on_localhost "''en''" False
                "Some ''light''" "()" None "Some dropped_file"]
          getMaplibreStyle_source_precedence
            [OF n(1), of example_isValidPMTiles example_layers on_localhost "''en''" False
                "Some ''light''" "()" None None]
          getMaplibreStyle_source_precedence
            [OF n(2), of example_isValidPMTiles example_layers on_localhost "''en''" False
                "Some ''light''" "()" None None]
          v u
    by (simp add: dropped_file_def)
qed

section \<open>View state in the URL fragment: properties\<close>

lemma map_of_delete_param: "map_of (delete_param k ps) = (map_of ps)(k := None)"
  unfolding delete_param_def
  by (induction ps) (auto simp: fun_eq_iff)

lemma map_of_set_param: "map_of (set_param k v ps) = (map_of ps)(k \<mapsto> v)"
proof (induction ps)
  case Nil
  then show ?case by simp
next
  case (Cons p ps)
  have "map_of (filter (\<lambda>q. fst q \<noteq> k) ps) = (map_of ps)(k := None)"
    using map_of_delete_param[of k ps] by (simp add: delete_param_def)
  with Cons show ?case by (cases p) (auto simp: fun_eq_iff)
qed

text \<open>
  C2, as the code has it. The record carries a tile source only for a URL other than the
  default with no archive dropped. With a dropped archive the \<open>tiles\<close> field is
  \<open>undefined\<close>, as it is for the default source: the record of a state with a dropped
  archive is the record of the same state with the default source and no archive, so no
  encoding of the record tells the two apart.
\<close>

theorem hash_record_tiles:
  "map_of (hash_record flavorName lang tiles localSprites showBoxes psv d) ''tiles''
     = Some (if d = None \<and> tiles \<noteq> DEFAULT_TILES then Some tiles else None) \<and>
   hash_record flavorName lang tiles localSprites showBoxes psv (Some a)
     = hash_record flavorName lang DEFAULT_TILES localSprites showBoxes psv None"
  by (simp add: hash_record_def split: option.splits)

theorem hash_record_tiles_witness:
  "map_of (hash_record ''dark'' ''fr'' example_url False False None None) ''tiles''
     = Some (Some example_url) \<and>
   map_of (hash_record ''dark'' ''fr'' example_url False False None (Some dropped_file)) ''tiles''
     = Some None \<and>
   hash_record ''dark'' ''fr'' example_url False False None (Some dropped_file)
     = hash_record ''dark'' ''fr'' DEFAULT_TILES False False None None"
proof -
  have d: "example_url \<noteq> DEFAULT_TILES"
    by (simp add: example_url_def DEFAULT_TILES_def)
  have 1: "map_of (hash_record ''dark'' ''fr'' example_url False False None None) ''tiles''
             = Some (Some example_url)"
    using hash_record_tiles[of "''dark''" "''fr''" example_url False False None None dropped_file]
          d
    by (simp only: simp_thms if_True)
  note 2 = hash_record_tiles
             [of "''dark''" "''fr''" example_url False False None "Some dropped_file" dropped_file,
              simplified option.distinct simp_thms if_False]
  show ?thesis
    using 1 2 by blast
qed

text \<open>
  C2 as stated fails: the state with a dropped archive and the state with no tile source
  set give the same record, hence the same fragment.
\<close>

theorem hash_record_dropped_counterexample:
  "hash_record ''light'' ''en'' DEFAULT_TILES False False None (Some dropped_file)
     = hash_record ''light'' ''en'' DEFAULT_TILES False False None None"
  by (simp add: hash_record_def)

lemma map_of_createHash_hash_record:
  "map_of (createHash F (hash_record flavorName lang tiles localSprites showBoxes psv d)) =
     (map_of F)
       (''flavorName'' := (if flavorName = ''light'' then None else Some flavorName),
        ''lang'' := (if lang = ''en'' then None else Some lang),
        ''tiles'' := (if d = None \<and> tiles \<noteq> DEFAULT_TILES then Some tiles else None),
        ''local_sprites'' := (if localSprites then Some ''true'' else None),
        ''show_boxes'' := (if showBoxes then Some ''true'' else None),
        ''npm_version'' := (if truthy psv then psv else None))"
  by (cases d; cases psv)
     (simp_all add: hash_record_def declared_default_def map_of_set_param
        map_of_delete_param truthy_def)

lemma key_absent: "map_of ps k = None \<Longrightarrow> k \<notin> fst ` set ps"
  by (simp add: map_of_eq_None_iff)

text \<open>
  C9. For every view state and every existing fragment, the encoded fragment has no key
  for a field at its declared default: no \<open>flavorName\<close> key for the flavor \<open>light\<close>, no
  \<open>lang\<close> key for the language \<open>en\<close>, no \<open>tiles\<close> key for the default tile source, no
  \<open>local_sprites\<close> and no \<open>show_boxes\<close> key for a flag that is off, and no
  \<open>npm_version\<close> key when no published style version is chosen. A key of that name
  that the fragment held before is removed.
\<close>

theorem createHash_omits_defaults:
  "(flavorName = ''light'' \<longrightarrow>
      ''flavorName'' \<notin> fst ` set (createHash F
         (hash_record flavorName lang tiles localSprites showBoxes psv d))) \<and>
   (lang = ''en'' \<longrightarrow>
      ''lang'' \<notin> fst ` set (createHash F
         (hash_record flavorName lang tiles localSprites showBoxes psv d))) \<and>
   (tiles = DEFAULT_TILES \<longrightarrow>
      ''tiles'' \<notin> fst ` set (createHash F
         (hash_record flavorName lang tiles localSprites showBoxes psv d))) \<and>
   (\<not> localSprites \<longrightarrow>
      ''local_sprites'' \<notin> fst ` set (createHash F
         (hash_record flavorName lang tiles localSprites showBoxes psv d))) \<and>
   (\<not> showBoxes \<longrightarrow>
      ''show_boxes'' \<notin> fst ` set (createHash F
         (hash_record flavorName lang tiles localSprites showBoxes psv d))) \<and>
   (\<not> truthy psv \<longrightarrow>
      ''npm_version'' \<notin> fst ` set (createHash F
         (hash_record flavorName lang tiles localSprites showBoxes psv d)))"
  by (intro conjI impI key_absent) (simp_all add: map_of_createHash_hash_record)

theorem createHash_omits_defaults_witness:
  "''flavorName'' \<notin> fst ` set (createHash stale_fragment
       (hash_record ''light'' ''en'' DEFAULT_TILES False False None None)) \<and>
   ''lang'' \<notin> fst ` set (createHash stale_fragment
       (hash_record ''light'' ''en'' DEFAULT_TILES False False None None)) \<and>
   ''tiles'' \<notin> fst ` set (createHash stale_fragment
       (hash_record ''light'' ''en'' DEFAULT_TILES False False None None)) \<and>
   ''local_sprites'' \<notin> fst ` set (createHash stale_fragment
       (hash_record ''light'' ''en'' DEFAULT_TILES False False None None)) \<and>
   ''show_boxes'' \<notin> fst ` set (createHash stale_fragment
       (hash_record ''light'' ''en'' DEFAULT_TILES False False None None)) \<and>
   ''npm_version'' \<notin> fst ` set (createHash stale_fragment
       (hash_record ''light'' ''en'' DEFAULT_TILES False False None None))"
proof -
  have t: "\<not> truthy None" by (simp add: truthy_def)
  show ?thesis
    using createHash_omits_defaults
            [of "''light''" stale_fragment "''en''" DEFAULT_TILES False False None None]
          t
    by blast
qed

end
